theory Spec2Isabelle
  imports Main "HOL-Library.AList" "HOL-Library.Word"
begin

unbundle bit_operations_syntax

section \<open>The feedback service of \<^verbatim>\<open>main_app.py\<close>\<close>

text \<open>
  The module keeps one dictionary, \<^verbatim>\<open>feedbacks_db\<close>, from UUIDs to \<^verbatim>\<open>Feedback\<close> objects,
  fills it with ten records when it is imported, and serves five handlers over it.
  The handlers are modelled with the dictionary passed in and returned; an exception is
  the \<open>Inl\<close> of a sum. Two things the module takes from its libraries are arguments of
  the model:
  \<^item> \<open>EmailStr\<close>, the validation of an address by pydantic's \<^verbatim>\<open>EmailStr\<close>: \<open>None\<close> when
    the address is rejected, otherwise the normalised address, which is what the
    validated model holds in place of the text that was sent;
  \<^item> the value of each \<^verbatim>\<open>uuid4()\<close> call (one identifier for a create request, the
    sequence \<open>uuid4 0, uuid4 1, \<dots>\<close> for the start-up loop).
  What the framework does with a handler's return value after the handler has returned
  (serialisation against \<^verbatim>\<open>response_model\<close>) is outside the model.
\<close>

subsection \<open>Data\<close>

type_synonym UUID = "128 word"

text \<open>
  \<^verbatim>\<open>class Feedback(FeedbackBase)\<close>, lines 43-46 and 57-59. The two text attributes are
  declared \<^verbatim>\<open>str\<close> and \<^verbatim>\<open>EmailStr\<close>, but an attribute of a Python object holds whatever is
  assigned to it; the values this module can put there are strings and \<^verbatim>\<open>None\<close>, so an
  attribute is a \<open>string option\<close> with \<open>None\<close> for Python's \<^verbatim>\<open>None\<close>.
\<close>

record Feedback =
  uuid :: UUID
  feedback_content :: "string option"
  email_address :: "string option"

text \<open>\<^verbatim>\<open>class FeedbackCreate(FeedbackBase)\<close>, lines 48-50: both attributes are strings.\<close>

record FeedbackCreate =
  create_feedback_content :: string
  create_email_address :: string

datatype field_name = Feedback_content | Email_address

text \<open>
  \<^verbatim>\<open>class FeedbackUpdate(BaseModel)\<close>, lines 52-55: both attributes are optional with
  default \<^verbatim>\<open>None\<close>; \<open>model_fields_set\<close> records which of them the request supplied.
\<close>

record FeedbackUpdate =
  update_feedback_content :: "string option"
  update_email_address :: "string option"
  model_fields_set :: "field_name set"

text \<open>
  What a request's JSON object holds under one key: nothing, \<^verbatim>\<open>null\<close>, a string, or a
  value of another JSON type. A request body is \<open>None\<close> when it is not a JSON object.
\<close>

datatype body_field = Absent | Null | Str string | Other

record json_object =
  json_feedback_content :: body_field
  json_email_address :: body_field

text \<open>
  \<open>HTTPException\<close> is the exception the handlers raise, with its status code and detail.
  \<open>RequestValidationError\<close> is the rejection of a body by the declared model, before the
  handler runs. \<open>ValidationError\<close> is raised by the \<^verbatim>\<open>Feedback\<close> constructor.
\<close>

datatype error =
    HTTPException nat string
  | RequestValidationError
  | ValidationError

type_synonym db = "(UUID \<times> Feedback) list"

subsection \<open>Field constraints and model validation\<close>

text \<open>\<^verbatim>\<open>Field(..., min_length=1, max_length=1000)\<close>, lines 45 and 54.\<close>

definition content_ok :: "string \<Rightarrow> bool" where
  "content_ok s \<longleftrightarrow> 1 \<le> length s \<and> length s \<le> 1000"

fun validate_content :: "body_field \<Rightarrow> error + string" where
  "validate_content (Str s) = (if content_ok s then Inr s else Inl RequestValidationError)"
| "validate_content _ = Inl RequestValidationError"

fun validate_email :: "(string \<Rightarrow> string option) \<Rightarrow> body_field \<Rightarrow> error + string" where
  "validate_email EmailStr (Str s) =
     (case EmailStr s of None \<Rightarrow> Inl RequestValidationError | Some s' \<Rightarrow> Inr s')"
| "validate_email EmailStr _ = Inl RequestValidationError"

text \<open>\<^verbatim>\<open>Optional[T]\<close>: \<^verbatim>\<open>null\<close> is accepted as \<^verbatim>\<open>None\<close>, anything else is validated as \<^verbatim>\<open>T\<close>.\<close>

fun validate_optional :: "(body_field \<Rightarrow> error + string) \<Rightarrow> body_field \<Rightarrow> error + string option" where
  "validate_optional v Null = Inr None"
| "validate_optional v x = (case v x of Inl e \<Rightarrow> Inl e | Inr s \<Rightarrow> Inr (Some s))"

text \<open>The body of \<^verbatim>\<open>POST /feedbacks\<close> as a \<^verbatim>\<open>FeedbackCreate\<close>: both fields are required.\<close>

definition parse_FeedbackCreate :: "(string \<Rightarrow> string option) \<Rightarrow> json_object option \<Rightarrow> error + FeedbackCreate" where
  "parse_FeedbackCreate EmailStr body =
     (case body of
        None \<Rightarrow> Inl RequestValidationError
      | Some obj \<Rightarrow>
          (case validate_content (json_feedback_content obj) of
             Inl e \<Rightarrow> Inl e
           | Inr c \<Rightarrow>
               (case validate_email EmailStr (json_email_address obj) of
                  Inl e \<Rightarrow> Inl e
                | Inr a \<Rightarrow> Inr \<lparr>create_feedback_content = c, create_email_address = a\<rparr>)))"

text \<open>
  The body of \<^verbatim>\<open>PUT /feedbacks/{feedback_uuid}\<close> as a \<^verbatim>\<open>FeedbackUpdate\<close>: a missing key
  takes the default \<^verbatim>\<open>None\<close> and is not in \<open>model_fields_set\<close>; a key that is present is
  validated and is in \<open>model_fields_set\<close>, also when its value is \<^verbatim>\<open>null\<close>.
\<close>

definition fields_set_of :: "json_object \<Rightarrow> field_name set" where
  "fields_set_of obj =
     (if json_feedback_content obj = Absent then {} else {Feedback_content}) \<union>
     (if json_email_address obj = Absent then {} else {Email_address})"

definition parse_field :: "(body_field \<Rightarrow> error + string) \<Rightarrow> body_field \<Rightarrow> error + string option" where
  "parse_field v x = (if x = Absent then Inr None else validate_optional v x)"

definition parse_FeedbackUpdate :: "(string \<Rightarrow> string option) \<Rightarrow> json_object option \<Rightarrow> error + FeedbackUpdate" where
  "parse_FeedbackUpdate EmailStr body =
     (case body of
        None \<Rightarrow> Inl RequestValidationError
      | Some obj \<Rightarrow>
          (case parse_field validate_content (json_feedback_content obj) of
             Inl e \<Rightarrow> Inl e
           | Inr c \<Rightarrow>
               (case parse_field (validate_email EmailStr) (json_email_address obj) of
                  Inl e \<Rightarrow> Inl e
                | Inr a \<Rightarrow>
                    Inr \<lparr>update_feedback_content = c, update_email_address = a,
                         model_fields_set = fields_set_of obj\<rparr>)))"

text \<open>
  The constructor \<^verbatim>\<open>Feedback(uuid=..., feedback_content=..., email_address=...)\<close>, called
  with two strings on lines 35-39 and 92-96: it validates them against lines 45-46 and
  holds the address as \<^verbatim>\<open>EmailStr\<close> normalises it.
\<close>

definition Feedback_init :: "(string \<Rightarrow> string option) \<Rightarrow> UUID \<Rightarrow> string \<Rightarrow> string \<Rightarrow> error + Feedback" where
  "Feedback_init EmailStr u c a =
     (if content_ok c
      then (case EmailStr a of
              None \<Rightarrow> Inl ValidationError
            | Some a' \<Rightarrow> Inr \<lparr>uuid = u, feedback_content = Some c, email_address = Some a'\<rparr>)
      else Inl ValidationError)"

text \<open>\<^verbatim>\<open>feedback_update.model_dump(exclude_unset=True)\<close>, line 161: the supplied fields only.\<close>

definition model_dump_exclude_unset :: "FeedbackUpdate \<Rightarrow> (field_name \<times> string option) list" where
  "model_dump_exclude_unset fu =
     filter (\<lambda>kv. fst kv \<in> model_fields_set fu)
       [(Feedback_content, update_feedback_content fu), (Email_address, update_email_address fu)]"

text \<open>
  \<^verbatim>\<open>stored_feedback.model_copy(update=update_data)\<close>, line 169: a copy whose attributes
  named in \<open>update_data\<close> are overwritten; nothing is validated.
\<close>

fun set_field :: "field_name \<times> string option \<Rightarrow> Feedback \<Rightarrow> Feedback" where
  "set_field (Feedback_content, v) fb = fb\<lparr>feedback_content := v\<rparr>"
| "set_field (Email_address, v) fb = fb\<lparr>email_address := v\<rparr>"

definition model_copy :: "Feedback \<Rightarrow> (field_name \<times> string option) list \<Rightarrow> Feedback" where
  "model_copy fb update_data = fold set_field update_data fb"

subsection \<open>The text of a UUID\<close>

definition hex_digit :: "nat \<Rightarrow> char" where
  "hex_digit n = ''0123456789abcdef'' ! (n mod 16)"

definition hex_UUID :: "UUID \<Rightarrow> string" where
  "hex_UUID u = map (\<lambda>i. hex_digit (unat (drop_bit (4 * (31 - i)) u AND 15))) [0..<32]"

text \<open>\<^verbatim>\<open>str(feedback_uuid)\<close>: 32 hexadecimal digits in groups of 8, 4, 4, 4 and 12.\<close>

definition str_UUID :: "UUID \<Rightarrow> string" where
  "str_UUID u =
     (let h = hex_UUID u
      in take 8 h @ ''-'' @ take 4 (drop 8 h) @ ''-'' @ take 4 (drop 12 h) @ ''-'' @
         take 4 (drop 16 h) @ ''-'' @ drop 20 h)"

definition not_found :: "UUID \<Rightarrow> error" where
  "not_found u = HTTPException 404 (''Feedback with UUID '' @ str_UUID u @ '' not found'')"

definition empty_update :: error where
  "empty_update = HTTPException 400 ''At least one field must be provided for update''"

subsection \<open>The handlers\<close>

text \<open>\<^verbatim>\<open>create_feedback\<close>, lines 82-98; \<open>feedback_uuid\<close> is the value of \<^verbatim>\<open>uuid4()\<close>.\<close>

definition create_feedback ::
  "(string \<Rightarrow> string option) \<Rightarrow> UUID \<Rightarrow> FeedbackCreate \<Rightarrow> db \<Rightarrow> (error + Feedback) \<times> db" where
  "create_feedback EmailStr feedback_uuid feedback feedbacks_db =
     (case Feedback_init EmailStr feedback_uuid
             (create_feedback_content feedback) (create_email_address feedback) of
        Inl e \<Rightarrow> (Inl e, feedbacks_db)
      | Inr new_feedback \<Rightarrow>
          (Inr new_feedback, AList.update feedback_uuid new_feedback feedbacks_db))"

text \<open>\<^verbatim>\<open>get_all_feedbacks\<close>, lines 107-113: the values in the dictionary's order.\<close>

definition get_all_feedbacks :: "db \<Rightarrow> Feedback list" where
  "get_all_feedbacks feedbacks_db = map snd feedbacks_db"

text \<open>\<^verbatim>\<open>get_feedback\<close>, lines 122-135.\<close>

definition get_feedback :: "UUID \<Rightarrow> db \<Rightarrow> error + Feedback" where
  "get_feedback feedback_uuid feedbacks_db =
     (case map_of feedbacks_db feedback_uuid of
        None \<Rightarrow> Inl (not_found feedback_uuid)
      | Some fb \<Rightarrow> Inr fb)"

text \<open>\<^verbatim>\<open>update_feedback\<close>, lines 144-171.\<close>

definition update_feedback :: "UUID \<Rightarrow> FeedbackUpdate \<Rightarrow> db \<Rightarrow> (error + Feedback) \<times> db" where
  "update_feedback feedback_uuid feedback_update feedbacks_db =
     (case map_of feedbacks_db feedback_uuid of
        None \<Rightarrow> (Inl (not_found feedback_uuid), feedbacks_db)
      | Some stored_feedback \<Rightarrow>
          (let update_data = model_dump_exclude_unset feedback_update
           in if update_data = [] then (Inl empty_update, feedbacks_db)
              else (let updated_feedback = model_copy stored_feedback update_data
                    in (Inr updated_feedback,
                        AList.update feedback_uuid updated_feedback feedbacks_db))))"

text \<open>\<^verbatim>\<open>delete_feedback\<close>, lines 180-194.\<close>

definition delete_feedback :: "UUID \<Rightarrow> db \<Rightarrow> (error + unit) \<times> db" where
  "delete_feedback feedback_uuid feedbacks_db =
     (case map_of feedbacks_db feedback_uuid of
        None \<Rightarrow> (Inl (not_found feedback_uuid), feedbacks_db)
      | Some _ \<Rightarrow> (Inr (), AList.delete feedback_uuid feedbacks_db))"

text \<open>\<^verbatim>\<open>root\<close>, lines 202-208.\<close>

definition root :: "(string \<times> string) list" where
  "root = [(''message'', ''Welcome to Feedback Management API''),
           (''docs'', ''/docs''), (''redoc'', ''/redoc'')]"

subsection \<open>Requests\<close>

text \<open>
  The six routes of lines 74-208. A create request carries the identifier \<^verbatim>\<open>uuid4()\<close>
  returns if its handler runs. The body is validated before the handler is called.
\<close>

datatype request =
    POST_feedbacks "json_object option" UUID
  | GET_feedbacks
  | GET_feedback UUID
  | PUT_feedback UUID "json_object option"
  | DELETE_feedback UUID
  | GET_root

datatype content =
    One Feedback
  | Many "Feedback list"
  | No_content
  | Info "(string \<times> string) list"

text \<open>A successful response is the route's status code (lines 77 and 175, else 200) and its content.\<close>

type_synonym response = "error + nat \<times> content"

fun handle :: "(string \<Rightarrow> string option) \<Rightarrow> request \<Rightarrow> db \<Rightarrow> response \<times> db" where
  "handle EmailStr (POST_feedbacks body u) feedbacks_db =
     (case parse_FeedbackCreate EmailStr body of
        Inl e \<Rightarrow> (Inl e, feedbacks_db)
      | Inr feedback \<Rightarrow>
          (case create_feedback EmailStr u feedback feedbacks_db of
             (Inl e, db') \<Rightarrow> (Inl e, db')
           | (Inr fb, db') \<Rightarrow> (Inr (201, One fb), db')))"
| "handle EmailStr GET_feedbacks feedbacks_db =
     (Inr (200, Many (get_all_feedbacks feedbacks_db)), feedbacks_db)"
| "handle EmailStr (GET_feedback u) feedbacks_db =
     (case get_feedback u feedbacks_db of
        Inl e \<Rightarrow> (Inl e, feedbacks_db)
      | Inr fb \<Rightarrow> (Inr (200, One fb), feedbacks_db))"
| "handle EmailStr (PUT_feedback u body) feedbacks_db =
     (case parse_FeedbackUpdate EmailStr body of
        Inl e \<Rightarrow> (Inl e, feedbacks_db)
      | Inr feedback_update \<Rightarrow>
          (case update_feedback u feedback_update feedbacks_db of
             (Inl e, db') \<Rightarrow> (Inl e, db')
           | (Inr fb, db') \<Rightarrow> (Inr (200, One fb), db')))"
| "handle EmailStr (DELETE_feedback u) feedbacks_db =
     (case delete_feedback u feedbacks_db of
        (Inl e, db') \<Rightarrow> (Inl e, db')
      | (Inr _, db') \<Rightarrow> (Inr (204, No_content), db'))"
| "handle EmailStr GET_root feedbacks_db = (Inr (200, Info root), feedbacks_db)"

text \<open>
  The status code of a response: an \<open>HTTPException\<close> carries its own, a rejected body is
  answered with 422, an exception that escapes a handler with 500.
\<close>

fun status_code :: "response \<Rightarrow> nat" where
  "status_code (Inl (HTTPException n _)) = n"
| "status_code (Inl RequestValidationError) = 422"
| "status_code (Inl ValidationError) = 500"
| "status_code (Inr (n, _)) = n"

text \<open>A sequence of requests, each served on the store the previous one left.\<close>

fun run :: "(string \<Rightarrow> string option) \<Rightarrow> request list \<Rightarrow> db \<Rightarrow> db" where
  "run EmailStr [] feedbacks_db = feedbacks_db"
| "run EmailStr (r # rs) feedbacks_db = run EmailStr rs (snd (handle EmailStr r feedbacks_db))"

subsection \<open>Start-up\<close>

text \<open>The list \<^verbatim>\<open>dummy_feedbacks\<close> of lines 20-31, as pairs of content and address.\<close>

definition dummy_feedbacks :: "(string \<times> string) list" where
  "dummy_feedbacks =
     [(''Excellent service! Very satisfied with the product quality.'', ''john.doe@example.com''),
      (''Fast delivery and great customer support. Highly recommend!'', ''sarah.smith@example.com''),
      (''The product met my expectations. Good value for money.'', ''mike.johnson@example.com''),
      (''Outstanding experience! Will definitely order again.'', ''emily.brown@example.com''),
      (''Good quality but shipping took longer than expected.'', ''david.wilson@example.com''),
      (''Amazing customer service team. They resolved my issue quickly.'', ''lisa.garcia@example.com''),
      (''Product works as described. Very happy with my purchase.'', ''robert.martinez@example.com''),
      (''Great experience overall. The website is easy to navigate.'', ''jennifer.davis@example.com''),
      (''Impressed with the quality and attention to detail.'', ''william.rodriguez@example.com''),
      (''Fantastic product! Exceeded my expectations in every way.'', ''amanda.miller@example.com'')]"

text \<open>
  The loop of lines 33-40 over the rest \<open>ds\<close> of the list; \<open>uuid4 i\<close> is the identifier the
  \<open>i\<close>-th call of \<^verbatim>\<open>uuid4()\<close> returns. A constructor that raises ends the loop.
\<close>

fun initialize_loop ::
  "(string \<Rightarrow> string option) \<Rightarrow> (nat \<Rightarrow> UUID) \<Rightarrow> nat \<Rightarrow> (string \<times> string) list \<Rightarrow> db \<Rightarrow> error + db" where
  "initialize_loop EmailStr uuid4 i [] feedbacks_db = Inr feedbacks_db"
| "initialize_loop EmailStr uuid4 i (dummy # ds) feedbacks_db =
     (case Feedback_init EmailStr (uuid4 i) (fst dummy) (snd dummy) of
        Inl e \<Rightarrow> Inl e
      | Inr feedback \<Rightarrow>
          initialize_loop EmailStr uuid4 (Suc i) ds (AList.update (uuid4 i) feedback feedbacks_db))"

definition initialize_dummy_data :: "(string \<Rightarrow> string option) \<Rightarrow> (nat \<Rightarrow> UUID) \<Rightarrow> db \<Rightarrow> error + db" where
  "initialize_dummy_data EmailStr uuid4 feedbacks_db =
     initialize_loop EmailStr uuid4 0 dummy_feedbacks feedbacks_db"

text \<open>Lines 15 and 71: the dictionary starts empty and is filled once.\<close>

definition startup :: "(string \<Rightarrow> string option) \<Rightarrow> (nat \<Rightarrow> UUID) \<Rightarrow> error + db" where
  "startup EmailStr uuid4 = initialize_dummy_data EmailStr uuid4 []"

subsection \<open>The data-model invariant\<close>

text \<open>
  A record is valid when both attributes are strings that meet lines 45-46: the content
  has 1 to 1000 characters and the address is one that \<^verbatim>\<open>EmailStr\<close> accepts.
\<close>

definition valid_record :: "(string \<Rightarrow> string option) \<Rightarrow> Feedback \<Rightarrow> bool" where
  "valid_record EmailStr fb \<longleftrightarrow>
     (case feedback_content fb of None \<Rightarrow> False | Some c \<Rightarrow> content_ok c) \<and>
     (case email_address fb of None \<Rightarrow> False | Some a \<Rightarrow> EmailStr a \<noteq> None)"

definition store_inv :: "(string \<Rightarrow> string option) \<Rightarrow> db \<Rightarrow> bool" where
  "store_inv EmailStr feedbacks_db = list_all (valid_record EmailStr) (map snd feedbacks_db)"

text \<open>
  A sample \<^verbatim>\<open>EmailStr\<close> and a sample generator, for evaluating the model. The sample
  accepts a text with an \<^verbatim>\<open>@\<close> and puts what follows the first \<^verbatim>\<open>@\<close> in lower case, as
  the library does with the domain of an address.
\<close>

definition has_at :: "string \<Rightarrow> bool" where
  "has_at s \<longleftrightarrow> CHR ''@'' \<in> set s"

definition lower :: "char \<Rightarrow> char" where
  "lower c =
     (case map_of (zip ''ABCDEFGHIJKLMNOPQRSTUVWXYZ'' ''abcdefghijklmnopqrstuvwxyz'') c of
        None \<Rightarrow> c
      | Some d \<Rightarrow> d)"

definition sample_EmailStr :: "string \<Rightarrow> string option" where
  "sample_EmailStr s =
     (if has_at s
      then Some (takeWhile (\<lambda>c. c \<noteq> CHR ''@'') s @ map lower (dropWhile (\<lambda>c. c \<noteq> CHR ''@'') s))
      else None)"

definition nth_uuid :: "nat \<Rightarrow> UUID" where
  "nth_uuid n = word_of_nat n"

text \<open>A store with one valid record, for evaluating the handlers.\<close>

definition sample_db :: db where
  "sample_db =
     [(1, \<lparr>uuid = 1, feedback_content = Some ''Great!'', email_address = Some ''a@b.com''\<rparr>)]"




text \<open>The record the start-up loop builds from the \<open>i\<close>-th identifier and the \<open>i\<close>-th pair.\<close>

definition seed_record :: "(nat \<Rightarrow> UUID) \<Rightarrow> nat \<times> string \<times> string \<Rightarrow> Feedback" where
  "seed_record uuid4 p =
     \<lparr>uuid = uuid4 (fst p), feedback_content = Some (fst (snd p)),
      email_address = Some (snd (snd p))\<rparr>"

text \<open>An update request whose body holds \<^verbatim>\<open>null\<close> under one of the two keys.\<close>

fun sets_null :: "request \<Rightarrow> bool" where
  "sets_null (PUT_feedback u (Some obj)) =
     (json_feedback_content obj = Null \<or> json_email_address obj = Null)"
| "sets_null _ = False"

section \<open>Properties\<close>

subsection \<open>Dictionary operations on association lists\<close>

lemmas handler_defs =
  parse_FeedbackCreate_def parse_FeedbackUpdate_def parse_field_def fields_set_of_def
  Feedback_init_def model_dump_exclude_unset_def model_copy_def
  create_feedback_def get_feedback_def update_feedback_def delete_feedback_def
  get_all_feedbacks_def

lemma update_fresh: "k \<notin> fst ` set al \<Longrightarrow> AList.update k v al = al @ [(k, v)]"
  by (induction al) auto


lemma length_delete:
  "distinct (map fst al) \<Longrightarrow> k \<in> fst ` set al \<Longrightarrow> Suc (length (AList.delete k al)) = length al"
proof (induction al)
  case Nil
  then show ?case by simp
next
  case (Cons p ps)
  show ?case
  proof (cases "fst p = k")
    case True
    with Cons.prems have "k \<notin> fst ` set ps" by auto
    with True show ?thesis by simp
  next
    case False
    with Cons show ?thesis by auto
  qed
qed

lemma present_lookup: "k \<in> fst ` set al \<Longrightarrow> \<exists>v. map_of al k = Some v"
  by (cases "map_of al k") (auto simp: map_of_eq_None_iff)

lemma absent_lookup: "k \<notin> fst ` set al \<Longrightarrow> map_of al k = None"
  by (simp add: map_of_eq_None_iff)

lemma list_all_update:
  "list_all P (map snd al) \<Longrightarrow> P v \<Longrightarrow> list_all P (map snd (AList.update k v al))"
  by (induction al) auto

lemma list_all_delete:
  "list_all P (map snd al) \<Longrightarrow> list_all P (map snd (AList.delete k al))"
  by (induction al) auto

lemma list_all_lookup:
  "list_all P (map snd al) \<Longrightarrow> map_of al k = Some v \<Longrightarrow> P v"
  by (induction al) (auto split: if_splits)

lemma sample_lookup:
  "map_of sample_db 1 =
     Some \<lparr>uuid = 1, feedback_content = Some ''Great!'', email_address = Some ''a@b.com''\<rparr>"
  by (simp add: sample_db_def)



lemma sample_keys: "1 \<in> fst ` set sample_db" "2 \<notin> fst ` set sample_db" "distinct (map fst sample_db)"
  by (simp_all add: sample_db_def)

subsection \<open>The store never holds a key twice\<close>

lemma distinct_keys_preserved:
  assumes "distinct (map fst feedbacks_db)"
  shows "distinct (map fst (snd (handle EmailStr r feedbacks_db)))"
proof (cases r)
  case (POST_feedbacks body u)
  with assms show ?thesis
    by (auto simp: parse_FeedbackCreate_def create_feedback_def Feedback_init_def
             intro: distinct_update split: option.splits sum.splits)
next
  case (PUT_feedback u body)
  with assms show ?thesis
    by (auto simp: update_feedback_def Let_def intro: distinct_update
             split: option.splits sum.splits)
next
  case (DELETE_feedback u)
  with assms show ?thesis
    by (auto simp: delete_feedback_def intro: distinct_delete split: option.splits)
qed (use assms in \<open>auto split: sum.splits\<close>)

lemma distinct_keys_run:
  "distinct (map fst feedbacks_db) \<Longrightarrow> distinct (map fst (run EmailStr rs feedbacks_db))"
  by (induction rs arbitrary: feedbacks_db) (simp_all add: distinct_keys_preserved)

lemma distinct_keys_initialize_loop:
  "distinct (map fst feedbacks_db) \<Longrightarrow>
   initialize_loop EmailStr uuid4 i ds feedbacks_db = Inr db' \<Longrightarrow>
   distinct (map fst db')"
proof (induction ds arbitrary: i feedbacks_db)
  case Nil
  then show ?case by simp
next
  case (Cons d ds)
  from Cons.prems(2) obtain fb where
    "initialize_loop EmailStr uuid4 (Suc i) ds (AList.update (uuid4 i) fb feedbacks_db) = Inr db'"
    by (auto split: sum.splits)
  moreover have "distinct (map fst (AList.update (uuid4 i) fb feedbacks_db))"
    using Cons.prems(1) by (rule distinct_update)
  ultimately show ?case
    using Cons.IH by blast
qed

lemma distinct_keys_startup:
  "startup EmailStr uuid4 = Inr feedbacks_db \<Longrightarrow> distinct (map fst feedbacks_db)"
  unfolding startup_def initialize_dummy_data_def
  by (rule distinct_keys_initialize_loop [of "[]"]) simp_all

subsection \<open>Failing requests\<close>

text \<open>
  Claim C2. A request that is answered with an error, whichever it is (a rejected body,
  an absent identifier, an update without fields), leaves the store exactly as it was.
\<close>

theorem error_leaves_store:
  "handle EmailStr r feedbacks_db = (Inl e, db') \<Longrightarrow> db' = feedbacks_db"
  by (cases r)
     (auto simp: handler_defs Let_def split: sum.splits option.splits if_splits prod.splits)

theorem error_leaves_store_witness:
  "handle sample_EmailStr (DELETE_feedback 2) sample_db = (Inl (not_found 2), sample_db) \<and>
   sample_db = sample_db"
  using error_leaves_store [of sample_EmailStr "DELETE_feedback 2" sample_db "not_found 2" sample_db]
  by (simp add: delete_feedback_def sample_db_def)

text \<open>
  Claim C5. For an identifier in the store, the update request with the body \<^verbatim>\<open>{}\<close> is
  answered with status 400 and the detail of line 166, and the store is unchanged.
\<close>

theorem empty_update_rejected:
  assumes "u \<in> fst ` set feedbacks_db"
  shows "handle EmailStr
           (PUT_feedback u (Some \<lparr>json_feedback_content = Absent, json_email_address = Absent\<rparr>))
           feedbacks_db
           = (Inl (HTTPException 400 ''At least one field must be provided for update''),
              feedbacks_db)
       \<and> status_code (fst (handle EmailStr
           (PUT_feedback u (Some \<lparr>json_feedback_content = Absent, json_email_address = Absent\<rparr>))
           feedbacks_db)) = 400"
proof -
  from assms obtain fb where "map_of feedbacks_db u = Some fb"
    using present_lookup by fastforce
  then show ?thesis
    by (simp add: handler_defs empty_update_def)
qed

theorem empty_update_rejected_witness:
  "1 \<in> fst ` set sample_db \<and>
   handle sample_EmailStr
     (PUT_feedback 1 (Some \<lparr>json_feedback_content = Absent, json_email_address = Absent\<rparr>))
     sample_db
     = (Inl (HTTPException 400 ''At least one field must be provided for update''), sample_db)"
  using sample_keys(1) empty_update_rejected [OF sample_keys(1), of sample_EmailStr] by simp

text \<open>
  Claim C9. For an identifier that is not in the store, the update request with the body
  \<^verbatim>\<open>{}\<close> is answered with the 404 of lines 154-158, not with the 400 of lines 163-167:
  the membership test comes first.
\<close>

theorem absent_id_before_empty_body:
  assumes "u \<notin> fst ` set feedbacks_db"
  shows "handle EmailStr
           (PUT_feedback u (Some \<lparr>json_feedback_content = Absent, json_email_address = Absent\<rparr>))
           feedbacks_db
           = (Inl (not_found u), feedbacks_db)
       \<and> status_code (fst (handle EmailStr
           (PUT_feedback u (Some \<lparr>json_feedback_content = Absent, json_email_address = Absent\<rparr>))
           feedbacks_db)) = 404
       \<and> not_found u \<noteq> empty_update"
  using assms by (simp add: handler_defs absent_lookup not_found_def empty_update_def)

theorem absent_id_before_empty_body_witness:
  "2 \<notin> fst ` set sample_db \<and>
   handle sample_EmailStr
     (PUT_feedback 2 (Some \<lparr>json_feedback_content = Absent, json_email_address = Absent\<rparr>))
     sample_db
     = (Inl (not_found 2), sample_db)"
  using sample_keys(2) absent_id_before_empty_body [OF sample_keys(2), of sample_EmailStr] by simp

text \<open>
  Claim C7. A create request whose content is empty or longer than 1000 characters, or
  whose address fails the syntax check, is rejected before the handler runs (status 422)
  and the store, hence its size, is unchanged.
\<close>

theorem invalid_create_rejected:
  assumes "length c = 0 \<or> 1000 < length c \<or> EmailStr a = None"
  shows "handle EmailStr
           (POST_feedbacks (Some \<lparr>json_feedback_content = Str c, json_email_address = Str a\<rparr>) u)
           feedbacks_db
           = (Inl RequestValidationError, feedbacks_db)
       \<and> status_code (fst (handle EmailStr
           (POST_feedbacks (Some \<lparr>json_feedback_content = Str c, json_email_address = Str a\<rparr>) u)
           feedbacks_db)) = 422"
  using assms by (auto simp: handler_defs content_ok_def)

theorem invalid_create_rejected_witness:
  "(length '''' = 0 \<or> 1000 < length '''' \<or> sample_EmailStr ''a@b.com'' = None) \<and>
   handle sample_EmailStr
     (POST_feedbacks (Some \<lparr>json_feedback_content = Str '''', json_email_address = Str ''a@b.com''\<rparr>) 5)
     sample_db
     = (Inl RequestValidationError, sample_db)"
  using invalid_create_rejected [of "''''" sample_EmailStr "''a@b.com''" 5 sample_db] by simp

subsection \<open>Create, update and delete\<close>




text \<open>
  Claim C4. For an identifier in the store and a valid content \<open>x\<close>, the update request
  whose body holds only that content answers 200 with the stored record in which the
  content is \<open>x\<close> and the address and identifier are as before; afterwards the store maps
  the identifier to that record, every other identifier as before, and the keys and
  their order are the same.
\<close>

theorem update_content_only:
  assumes "map_of feedbacks_db u = Some fb" and "content_ok x"
  shows "fst (handle EmailStr
           (PUT_feedback u (Some \<lparr>json_feedback_content = Str x, json_email_address = Absent\<rparr>))
           feedbacks_db)
           = Inr (200, One (fb\<lparr>feedback_content := Some x\<rparr>))
       \<and> map_of (snd (handle EmailStr
           (PUT_feedback u (Some \<lparr>json_feedback_content = Str x, json_email_address = Absent\<rparr>))
           feedbacks_db))
           = (map_of feedbacks_db)(u \<mapsto> fb\<lparr>feedback_content := Some x\<rparr>)
       \<and> map fst (snd (handle EmailStr
           (PUT_feedback u (Some \<lparr>json_feedback_content = Str x, json_email_address = Absent\<rparr>))
           feedbacks_db))
           = map fst feedbacks_db
       \<and> email_address (fb\<lparr>feedback_content := Some x\<rparr>) = email_address fb
       \<and> uuid (fb\<lparr>feedback_content := Some x\<rparr>) = uuid fb"
proof -
  from assms(1) have "u \<in> set (map fst feedbacks_db)"
    by (metis map_of_eq_None_iff option.distinct(1) set_map)
  with assms show ?thesis
    by (simp add: handler_defs Let_def update_conv' update_keys)
qed

theorem update_content_only_witness:
  "map_of sample_db 1 =
     Some \<lparr>uuid = 1, feedback_content = Some ''Great!'', email_address = Some ''a@b.com''\<rparr> \<and>
   content_ok ''Better'' \<and>
   handle sample_EmailStr
     (PUT_feedback 1 (Some \<lparr>json_feedback_content = Str ''Better'', json_email_address = Absent\<rparr>))
     sample_db
     = (Inr (200, One \<lparr>uuid = 1, feedback_content = Some ''Better'', email_address = Some ''a@b.com''\<rparr>),
        [(1, \<lparr>uuid = 1, feedback_content = Some ''Better'', email_address = Some ''a@b.com''\<rparr>)])"
proof -
  have x: "content_ok ''Better''" by (simp add: content_ok_def)
  show ?thesis
    using sample_lookup x update_content_only [OF sample_lookup x, of sample_EmailStr]
    by (simp add: handler_defs Let_def sample_db_def)
qed

text \<open>
  Claim C6. For an identifier in the store (a dictionary: no key twice), the delete
  request answers 204, the identifier is no longer a key and the store has one entry
  less; afterwards reading it and deleting it again are both answered with 404.
\<close>

theorem delete_then_not_found:
  assumes "u \<in> fst ` set feedbacks_db" and "distinct (map fst feedbacks_db)"
  shows "fst (handle EmailStr (DELETE_feedback u) feedbacks_db) = Inr (204, No_content)
       \<and> u \<notin> fst ` set (snd (handle EmailStr (DELETE_feedback u) feedbacks_db))
       \<and> Suc (length (snd (handle EmailStr (DELETE_feedback u) feedbacks_db))) = length feedbacks_db
       \<and> fst (handle EmailStr (GET_feedback u)
               (snd (handle EmailStr (DELETE_feedback u) feedbacks_db)))
           = Inl (not_found u)
       \<and> fst (handle EmailStr (DELETE_feedback u)
               (snd (handle EmailStr (DELETE_feedback u) feedbacks_db)))
           = Inl (not_found u)
       \<and> status_code (Inl (not_found u)) = 404"
proof -
  from assms(1) obtain fb where fb: "map_of feedbacks_db u = Some fb"
    using present_lookup by fastforce
  have del: "snd (handle EmailStr (DELETE_feedback u) feedbacks_db) = AList.delete u feedbacks_db"
    and ok: "fst (handle EmailStr (DELETE_feedback u) feedbacks_db) = Inr (204, No_content)"
    using fb by (simp_all add: delete_feedback_def)
  have gone: "map_of (AList.delete u feedbacks_db) u = None"
    by (simp add: delete_conv')
  have "u \<notin> fst ` set (AList.delete u feedbacks_db)"
    using gone by (simp add: map_of_eq_None_iff)
  moreover have "Suc (length (AList.delete u feedbacks_db)) = length feedbacks_db"
    using assms by (simp add: length_delete)
  moreover have "fst (handle EmailStr (GET_feedback u) (AList.delete u feedbacks_db))
      = Inl (not_found u)"
    using gone by (simp add: get_feedback_def)
  moreover have "fst (handle EmailStr (DELETE_feedback u) (AList.delete u feedbacks_db))
      = Inl (not_found u)"
    using gone by (simp add: delete_feedback_def)
  moreover have "status_code (Inl (not_found u)) = 404"
    by (simp add: not_found_def)
  ultimately show ?thesis using del ok by simp
qed

theorem delete_then_not_found_witness:
  "1 \<in> fst ` set sample_db \<and> distinct (map fst sample_db) \<and>
   handle sample_EmailStr (DELETE_feedback 1) sample_db = (Inr (204, No_content), []) \<and>
   handle sample_EmailStr (GET_feedback 1) [] = (Inl (not_found 1), []) \<and>
   handle sample_EmailStr (DELETE_feedback 1) [] = (Inl (not_found 1), [])"
  using sample_keys(1) sample_keys(3)
    delete_then_not_found [OF sample_keys(1) sample_keys(3), of sample_EmailStr]
  by (simp add: delete_feedback_def get_feedback_def sample_db_def)

subsection \<open>Explicit null in an update\<close>

text \<open>
  Claim C10. For an identifier in the store, an update request whose body passes
  validation and holds \<^verbatim>\<open>null\<close> under \<^verbatim>\<open>feedback_content\<close> or under \<^verbatim>\<open>email_address\<close>
  is answered with 200, not with an error: the handler stores and returns a record with
  the same identifier in which the attribute set to \<^verbatim>\<open>null\<close> is \<^verbatim>\<open>None\<close>.
\<close>

theorem null_update_accepted:
  assumes "map_of feedbacks_db u = Some stored_feedback"
    and "parse_FeedbackUpdate EmailStr (Some obj) = Inr feedback_update"
    and "json_feedback_content obj = Null \<or> json_email_address obj = Null"
  shows "\<exists>fb'. handle EmailStr (PUT_feedback u (Some obj)) feedbacks_db
                 = (Inr (200, One fb'), AList.update u fb' feedbacks_db)
           \<and> map_of (AList.update u fb' feedbacks_db) u = Some fb'
           \<and> uuid fb' = uuid stored_feedback
           \<and> (json_feedback_content obj = Null \<longrightarrow> feedback_content fb' = None)
           \<and> (json_email_address obj = Null \<longrightarrow> email_address fb' = None)"
  using assms
  by (cases "json_feedback_content obj"; cases "json_email_address obj")
     (auto simp: handler_defs Let_def update_conv' split: if_splits sum.splits)

theorem null_update_accepted_witness:
  "map_of sample_db 1 =
     Some \<lparr>uuid = 1, feedback_content = Some ''Great!'', email_address = Some ''a@b.com''\<rparr> \<and>
   parse_FeedbackUpdate sample_EmailStr (Some \<lparr>json_feedback_content = Null, json_email_address = Absent\<rparr>)
     = Inr \<lparr>update_feedback_content = None, update_email_address = None,
            model_fields_set = {Feedback_content}\<rparr> \<and>
   handle sample_EmailStr
     (PUT_feedback 1 (Some \<lparr>json_feedback_content = Null, json_email_address = Absent\<rparr>))
     sample_db
     = (Inr (200, One \<lparr>uuid = 1, feedback_content = None, email_address = Some ''a@b.com''\<rparr>),
        [(1, \<lparr>uuid = 1, feedback_content = None, email_address = Some ''a@b.com''\<rparr>)])"
proof -
  have b: "parse_FeedbackUpdate sample_EmailStr
      (Some \<lparr>json_feedback_content = Null, json_email_address = Absent\<rparr>)
      = Inr \<lparr>update_feedback_content = None, update_email_address = None,
             model_fields_set = {Feedback_content}\<rparr>"
    by (simp add: parse_FeedbackUpdate_def parse_field_def fields_set_of_def)
  have c: "json_feedback_content \<lparr>json_feedback_content = Null, json_email_address = Absent\<rparr> = Null
         \<or> json_email_address \<lparr>json_feedback_content = Null, json_email_address = Absent\<rparr> = Null"
    by simp
  show ?thesis
    using sample_lookup b null_update_accepted [OF sample_lookup b c]
    by (simp add: handler_defs Let_def sample_db_def)
qed

subsection \<open>The data-model invariant\<close>

text \<open>
  When every address that \<^verbatim>\<open>EmailStr\<close> returns is itself one it accepts, every request
  that does not put \<^verbatim>\<open>null\<close> under a key of an update body keeps the invariant, and so
  does every sequence of such requests.
\<close>

lemma Feedback_init_valid:
  assumes "\<And>s s'. EmailStr s = Some s' \<Longrightarrow> EmailStr s' \<noteq> None"
    and "Feedback_init EmailStr u c a = Inr fb"
  shows "valid_record EmailStr fb"
proof -
  from assms(2) obtain a' where "content_ok c" and a': "EmailStr a = Some a'"
    and fb: "fb = \<lparr>uuid = u, feedback_content = Some c, email_address = Some a'\<rparr>"
    by (auto simp: Feedback_init_def split: if_splits option.splits)
  moreover have "EmailStr a' \<noteq> None"
    using a' by (rule assms(1))
  ultimately show ?thesis
    by (simp add: valid_record_def)
qed

lemma store_inv_preserved:
  assumes "store_inv EmailStr feedbacks_db" and "\<not> sets_null r"
    and normal: "\<And>s s'. EmailStr s = Some s' \<Longrightarrow> EmailStr s' \<noteq> None"
  shows "store_inv EmailStr (snd (handle EmailStr r feedbacks_db))"
proof (cases r)
  case (POST_feedbacks body u)
  show ?thesis
  proof (cases "parse_FeedbackCreate EmailStr body")
    case (Inl e)
    with POST_feedbacks assms(1) show ?thesis by simp
  next
    case (Inr feedback)
    show ?thesis
    proof (cases "Feedback_init EmailStr u (create_feedback_content feedback)
                    (create_email_address feedback)")
      case (Inl e)
      with POST_feedbacks \<open>parse_FeedbackCreate EmailStr body = Inr feedback\<close> assms(1)
      show ?thesis by (simp add: create_feedback_def)
    next
      case (Inr fb)
      then have "valid_record EmailStr fb"
        using normal Feedback_init_valid by blast
      then have "store_inv EmailStr (AList.update u fb feedbacks_db)"
        using assms(1) unfolding store_inv_def by (intro list_all_update)
      with POST_feedbacks \<open>parse_FeedbackCreate EmailStr body = Inr feedback\<close> Inr
      show ?thesis by (simp add: create_feedback_def)
    qed
  qed
next
  case (PUT_feedback u body)
  show ?thesis
  proof (cases body)
    case None
    with PUT_feedback assms(1) show ?thesis by (simp add: parse_FeedbackUpdate_def)
  next
    case (Some obj)
    show ?thesis
    proof (cases "map_of feedbacks_db u")
      case None
      with PUT_feedback Some assms(1) show ?thesis
        by (auto simp: update_feedback_def split: sum.splits)
    next
      case (Some stored)
      then have v: "valid_record EmailStr stored"
        using assms(1) list_all_lookup unfolding store_inv_def by fastforce
      from assms(2) PUT_feedback \<open>body = Some obj\<close>
      have nn: "json_feedback_content obj \<noteq> Null" "json_email_address obj \<noteq> Null" by auto
      show ?thesis
        using PUT_feedback \<open>body = Some obj\<close> Some v nn assms(1) normal
        by (cases "json_feedback_content obj"; cases "json_email_address obj")
           (auto simp: store_inv_def handler_defs valid_record_def Let_def
                 intro!: list_all_update split: if_splits option.splits)
    qed
  qed
next
  case (DELETE_feedback u)
  with assms(1) show ?thesis
    by (auto simp: store_inv_def delete_feedback_def intro: list_all_delete split: option.splits)
qed (use assms(1) in \<open>auto simp: get_feedback_def split: option.splits\<close>)

lemma store_inv_run:
  assumes "\<And>s s'. EmailStr s = Some s' \<Longrightarrow> EmailStr s' \<noteq> None"
  shows "store_inv EmailStr feedbacks_db \<Longrightarrow> list_all (\<lambda>r. \<not> sets_null r) rs \<Longrightarrow>
         store_inv EmailStr (run EmailStr rs feedbacks_db)"
  by (induction rs arbitrary: feedbacks_db) (simp_all add: store_inv_preserved assms)

text \<open>Start-up, when it succeeds, leaves a store in which the invariant holds.\<close>

lemma initialize_loop_inv:
  assumes "\<And>s s'. EmailStr s = Some s' \<Longrightarrow> EmailStr s' \<noteq> None"
  shows "store_inv EmailStr feedbacks_db \<Longrightarrow>
         initialize_loop EmailStr uuid4 i ds feedbacks_db = Inr db' \<Longrightarrow>
         store_inv EmailStr db'"
proof (induction ds arbitrary: i feedbacks_db)
  case Nil
  then show ?case by simp
next
  case (Cons d ds)
  from Cons.prems(2) obtain fb where
    init: "Feedback_init EmailStr (uuid4 i) (fst d) (snd d) = Inr fb" and
    step: "initialize_loop EmailStr uuid4 (Suc i) ds (AList.update (uuid4 i) fb feedbacks_db) = Inr db'"
    by (auto split: sum.splits)
  have "valid_record EmailStr fb"
    using assms init by (rule Feedback_init_valid)
  then have "store_inv EmailStr (AList.update (uuid4 i) fb feedbacks_db)"
    using Cons.prems(1) unfolding store_inv_def by (intro list_all_update)
  then show ?case
    using step by (rule Cons.IH)
qed

lemma startup_inv:
  assumes "\<And>s s'. EmailStr s = Some s' \<Longrightarrow> EmailStr s' \<noteq> None"
    and "startup EmailStr uuid4 = Inr feedbacks_db"
  shows "store_inv EmailStr feedbacks_db"
proof -
  have "store_inv EmailStr []"
    by (simp add: store_inv_def)
  moreover have "initialize_loop EmailStr uuid4 0 dummy_feedbacks [] = Inr feedbacks_db"
    using assms(2) by (simp add: startup_def initialize_dummy_data_def)
  ultimately show ?thesis
    using assms(1) initialize_loop_inv by blast
qed

text \<open>
  Claim C1. The invariant does not survive an update that sets a field to \<^verbatim>\<open>null\<close>: on a
  store whose one record is valid, the request \<^verbatim>\<open>PUT /feedbacks/{id}\<close> with the body
  \<^verbatim>\<open>{"feedback_content": null}\<close> is answered with 200 and leaves a record without content.
\<close>

theorem null_update_breaks_invariant:
  "store_inv sample_EmailStr sample_db \<and>
   fst (handle sample_EmailStr
     (PUT_feedback 1 (Some \<lparr>json_feedback_content = Null, json_email_address = Absent\<rparr>))
     sample_db)
     = Inr (200, One \<lparr>uuid = 1, feedback_content = None, email_address = Some ''a@b.com''\<rparr>) \<and>
   \<not> store_inv sample_EmailStr
       (run sample_EmailStr
         [PUT_feedback 1 (Some \<lparr>json_feedback_content = Null, json_email_address = Absent\<rparr>)]
         sample_db)"
  by (simp add: handler_defs Let_def sample_db_def store_inv_def valid_record_def
        content_ok_def sample_EmailStr_def has_at_def lower_def)

subsection \<open>Start-up\<close>

lemma initialize_loop_fresh:
  assumes "list_all (\<lambda>d. content_ok (fst d) \<and> EmailStr (snd d) = Some (snd d)) ds"
    and "distinct (map uuid4 [i..<i + length ds])"
    and "\<And>j. i \<le> j \<Longrightarrow> j < i + length ds \<Longrightarrow> uuid4 j \<notin> fst ` set feedbacks_db"
  shows "initialize_loop EmailStr uuid4 i ds feedbacks_db =
           Inr (feedbacks_db @
                map (\<lambda>p. (uuid4 (fst p), seed_record uuid4 p)) (zip [i..<i + length ds] ds))"
  using assms
proof (induction ds arbitrary: i feedbacks_db)
  case Nil
  then show ?case by simp
next
  case (Cons d ds)
  let ?fb = "\<lparr>uuid = uuid4 i, feedback_content = Some (fst d), email_address = Some (snd d)\<rparr>"
  have range: "[i..<i + length (d # ds)] = i # [Suc i..<Suc i + length ds]"
    using upt_conv_Cons [of i "i + Suc (length ds)"] by simp
  have ok: "Feedback_init EmailStr (uuid4 i) (fst d) (snd d) = Inr ?fb"
    using Cons.prems(1) by (simp add: Feedback_init_def)
  have fresh: "uuid4 i \<notin> fst ` set feedbacks_db"
    using Cons.prems(3) [of i] by simp
  have upd: "AList.update (uuid4 i) ?fb feedbacks_db = feedbacks_db @ [(uuid4 i, ?fb)]"
    using fresh by (rule update_fresh)
  have "distinct (uuid4 i # map uuid4 [Suc i..<Suc i + length ds])"
    using Cons.prems(2) unfolding range by simp
  then have "uuid4 i \<notin> set (map uuid4 [Suc i..<Suc i + length ds]) \<and>
             distinct (map uuid4 [Suc i..<Suc i + length ds])"
    by (metis distinct.simps(2))
  then have notin: "uuid4 i \<notin> set (map uuid4 [Suc i..<Suc i + length ds])"
    and d1: "distinct (map uuid4 [Suc i..<Suc i + length ds])"
    by blast+
  have d2: "uuid4 j \<notin> fst ` set (feedbacks_db @ [(uuid4 i, ?fb)])"
    if "Suc i \<le> j" "j < Suc i + length ds" for j
  proof -
    have "uuid4 j \<notin> fst ` set feedbacks_db"
      by (rule Cons.prems(3)) (use that in auto)
    moreover have "j \<in> set [Suc i..<Suc i + length ds]"
      using that by (simp only: set_upt atLeastLessThan_iff)
    then have "uuid4 j \<in> set (map uuid4 [Suc i..<Suc i + length ds])"
      by (simp only: set_map) (rule imageI)
    with notin have "uuid4 j \<noteq> uuid4 i"
      by metis
    ultimately show ?thesis by simp
  qed
  have "initialize_loop EmailStr uuid4 (Suc i) ds (feedbacks_db @ [(uuid4 i, ?fb)]) =
          Inr ((feedbacks_db @ [(uuid4 i, ?fb)]) @
               map (\<lambda>p. (uuid4 (fst p), seed_record uuid4 p))
                 (zip [Suc i..<Suc i + length ds] ds))"
    using Cons.prems(1) d1 d2 by (intro Cons.IH) simp_all
  then show ?case
    unfolding range by (simp add: ok upd seed_record_def)
qed

lemma dummy_contents_ok: "list_all content_ok (map fst dummy_feedbacks)"
  by (simp add: dummy_feedbacks_def content_ok_def)

lemma length_dummy_feedbacks: "length dummy_feedbacks = 10"
  by (simp add: dummy_feedbacks_def)

lemma sample_emails_ok: "list_all (\<lambda>a. sample_EmailStr a = Some a) (map snd dummy_feedbacks)"
  by (simp add: dummy_feedbacks_def sample_EmailStr_def has_at_def lower_def)

lemma sample_uuids_distinct: "distinct (map nth_uuid [0..<10])"
  by (simp add: nth_uuid_def upt_conv_Cons)

text \<open>
  Claim C8. When \<^verbatim>\<open>EmailStr\<close> accepts the ten addresses of the list as they are written
  (they are in normal form: lower case, no blanks) and the ten calls of
  \<^verbatim>\<open>uuid4()\<close> return ten different identifiers, start-up leaves a store of exactly ten
  entries, and the list request on it returns exactly the ten records built from the
  pairs of the list, in the list's order, each with its own generated identifier.
\<close>

theorem startup_ten_records:
  assumes "list_all (\<lambda>a. EmailStr a = Some a) (map snd dummy_feedbacks)"
    and "distinct (map uuid4 [0..<10])"
  shows "\<exists>feedbacks_db. startup EmailStr uuid4 = Inr feedbacks_db
           \<and> length feedbacks_db = 10
           \<and> length (get_all_feedbacks feedbacks_db) = 10
           \<and> handle EmailStr GET_feedbacks feedbacks_db =
               (Inr (200, Many (map (seed_record uuid4) (zip [0..<10] dummy_feedbacks))),
                feedbacks_db)"
proof -
  have "list_all (\<lambda>d. content_ok (fst d) \<and> EmailStr (snd d) = Some (snd d)) dummy_feedbacks"
    using assms(1) dummy_contents_ok by (simp add: list_all_iff)
  then have "initialize_loop EmailStr uuid4 0 dummy_feedbacks [] =
          Inr ([] @ map (\<lambda>p. (uuid4 (fst p), seed_record uuid4 p))
                      (zip [0..<0 + length dummy_feedbacks] dummy_feedbacks))"
    using assms(2) by (intro initialize_loop_fresh) (simp_all add: length_dummy_feedbacks)
  then have "startup EmailStr uuid4 =
          Inr (map (\<lambda>p. (uuid4 (fst p), seed_record uuid4 p)) (zip [0..<10] dummy_feedbacks))"
    by (simp add: startup_def initialize_dummy_data_def length_dummy_feedbacks)
  then show ?thesis
    by (simp add: get_all_feedbacks_def length_dummy_feedbacks comp_def)
qed

theorem startup_ten_records_witness:
  "list_all (\<lambda>a. sample_EmailStr a = Some a) (map snd dummy_feedbacks) \<and>
   distinct (map nth_uuid [0..<10]) \<and>
   (\<exists>feedbacks_db. startup sample_EmailStr nth_uuid = Inr feedbacks_db \<and> length feedbacks_db = 10)"
  using startup_ten_records [OF sample_emails_ok sample_uuids_distinct]
    sample_emails_ok sample_uuids_distinct
  by blast

end
